theory Spec2Isabelle
  imports Main "HOL-Library.AList"
begin

section \<open>The WebSocket client of the Slack Clone Python SDK\<close>

text \<open>
  This theory embeds class \<open>WebSocketClient\<close> of \<open>docs/tools/python-client.py\<close>.
  The client owns one transport connection, keeps a dictionary of joined channels
  and a dictionary of global event handlers, and dispatches inbound frames.

  Conventions of the embedding.
  \<^item> Every method takes the client state and returns the raised exception or \<open>()\<close>,
    the new state, and the list of observable actions it performed, in order
    (transport calls, handler invocations, log lines).
  \<^item> The collaborators are parameters: \<open>websockets.connect\<close> is a function from the
    URI to a failure or a connection handle, \<open>websocket.send\<close> a function from the
    handle and the frame to an optional failure, a handler a function from its
    identity and the payload to an optional failure, and the clock reading
    \<open>int(time.time() * 1000)\<close> an integer argument. \<open>websocket.close()\<close> of the
    \<open>websockets\<close> library does not raise.
  \<^item> An exception is an instance of Python's \<open>Exception\<close>, the class every
    \<open>except\<close> clause of the client names. Handlers that raise outside
    \<open>Exception\<close> have their own definitions of the dispatch and the loop. The
    cancellation of the listen task by \<open>disconnect\<close> is represented by the status
    of the task.
  \<^item> A frame on the wire is represented by the JSON value that \<open>json.dumps\<close>
    serialises or \<open>json.loads\<close> parses.
\<close>

subsection \<open>JSON values and exceptions\<close>

text \<open>
  A parsed JSON value. The client looks at the topic and the event of a message and
  passes the payload on unread; numbers are kept as integers.
\<close>

datatype json =
  JNull
| JBool bool
| JNum int
| JStr string
| JArr "json list"
| JObj "(string \<times> json) list"

datatype exc_class =
  SlackCloneError
| ConnectionClosed
| WebSocketException
| JSONDecodeError
| AttributeError
| TypeError
| KeyError
| OtherException

text \<open>An exception: its class and \<open>str(e)\<close>, the text an f-string prints for it.\<close>

datatype exn = Exn (exn_class: exc_class) (exn_str: string)


type_synonym result = "exn + unit"

datatype action =
  Open string
| Send nat json
| Close nat
| Call_callback nat json
| Call_handler nat json
| Log_info string
| Log_error string

subsection \<open>Python primitives used by the client\<close>

text \<open>\<open>str(n)\<close> of an integer: decimal digits, a minus sign for negatives.\<close>

fun str_nat :: "nat \<Rightarrow> string" where
  "str_nat n = (if n < 10 then [''0123456789'' ! n]
                else str_nat (n div 10) @ [''0123456789'' ! (n mod 10)])"

declare str_nat.simps [simp del]

definition str_int :: "int \<Rightarrow> string" where
  "str_int i = (if i < 0 then ''-'' @ str_nat (nat (- i)) else str_nat (nat i))"

text \<open>\<open>type(v).__name__\<close> of a parsed JSON value.\<close>

fun py_type :: "json \<Rightarrow> string" where
  "py_type JNull = ''NoneType''"
| "py_type (JBool _) = ''bool''"
| "py_type (JNum _) = ''int''"
| "py_type (JStr _) = ''str''"
| "py_type (JArr _) = ''list''"
| "py_type (JObj _) = ''dict''"

text \<open>\<open>d.get(k, default)\<close> on a parsed JSON object.\<close>

definition dict_get :: "(string \<times> json) list \<Rightarrow> string \<Rightarrow> json \<Rightarrow> json" where
  "dict_get d k dflt = (case map_of d k of None \<Rightarrow> dflt | Some v \<Rightarrow> v)"

text \<open>
  \<open>key in d\<close> for a dictionary with string keys: hashing a list or a dict raises
  \<open>TypeError\<close>; any other non-string value is simply not a key.
\<close>

fun dict_contains :: "(string \<rightharpoonup> 'a) \<Rightarrow> json \<Rightarrow> exn + bool" where
  "dict_contains d (JStr k) = Inr (d k \<noteq> None)"
| "dict_contains d (JArr xs) = Inl (Exn TypeError (''unhashable type: '' @ [CHR 0x27] @ ''list'' @ [CHR 0x27]))"
| "dict_contains d (JObj kvs) = Inl (Exn TypeError (''unhashable type: '' @ [CHR 0x27] @ ''dict'' @ [CHR 0x27]))"
| "dict_contains d _ = Inr False"

text \<open>The text an f-string prints for a value that is a dictionary key here: a string.\<close>

fun fmt :: "json \<Rightarrow> string" where
  "fmt (JStr s) = s"
| "fmt _ = []"

subsection \<open>Client state\<close>

record channel_info =
  topic :: string
  callbacks :: "string \<rightharpoonup> nat"

datatype task = Pending | Finished | Cancelled

text \<open>
  \<open>websocket\<close> holds the handle of the open connection. \<open>channels\<close> is the
  dictionary \<open>self.channels\<close> in insertion order (the order \<open>.items()\<close> iterates in);
  a Python dictionary has each key once, which is \<open>distinct (map fst (channels s))\<close>.
  \<open>event_handlers\<close> maps an event name to its list of handlers, handlers being
  named by numbers. \<open>listen_task\<close> is \<open>self._listen_task\<close>.
\<close>

record client =
  url :: string
  websocket :: "nat option"
  channels :: "(string \<times> channel_info) list"
  event_handlers :: "string \<rightharpoonup> nat list"
  connected :: bool
  listen_task :: "task option"

definition init :: "string \<Rightarrow> client" where
  "init u = \<lparr> url = u, websocket = None, channels = [], event_handlers = Map.empty,
              connected = False, listen_task = None \<rparr>"

definition default_url :: string where
  "default_url = ''ws://localhost:4000/socket/websocket''"

text \<open>The guard \<open>not self.websocket or not self.connected\<close>, negated.\<close>

definition active :: "client \<Rightarrow> bool" where
  "active s \<longleftrightarrow> websocket s \<noteq> None \<and> connected s"

definition joined :: "client \<Rightarrow> string \<Rightarrow> bool" where
  "joined s channel_id \<longleftrightarrow> map_of (channels s) channel_id \<noteq> None"

definition make_ref :: "int \<Rightarrow> string" where
  "make_ref now = ''ref_'' @ str_int now"

definition envelope :: "string \<Rightarrow> string \<Rightarrow> json \<Rightarrow> string \<Rightarrow> json" where
  "envelope tp ev payload rf =
     JObj [(''topic'', JStr tp), (''event'', JStr ev), (''payload'', payload), (''ref'', JStr rf)]"

definition not_connected :: exn where
  "not_connected = Exn SlackCloneError ''WebSocket not connected''"

definition not_joined :: "string \<Rightarrow> exn" where
  "not_joined channel_id = Exn SlackCloneError (''Not joined to channel: '' @ channel_id)"

subsection \<open>connect and disconnect\<close>

definition connect ::
  "(string \<Rightarrow> exn + nat) \<Rightarrow> client \<Rightarrow> string \<Rightarrow> result \<times> client \<times> action list" where
  "connect ws_connect s token =
     (let uri = url s @ ''?token='' @ token in
      case ws_connect uri of
        Inr h \<Rightarrow>
          (Inr (),
           s\<lparr>websocket := Some h, connected := True, listen_task := Some Pending\<rparr>,
           [Open uri, Log_info ''WebSocket connected successfully''])
      | Inl e \<Rightarrow>
          (Inl (Exn SlackCloneError (''WebSocket connection failed: '' @ exn_str e)),
           s,
           [Open uri, Log_error (''WebSocket connection failed: '' @ exn_str e)]))"



subsection \<open>join, leave and the channel-scoped senders\<close>

definition join_channel ::
  "(nat \<Rightarrow> json \<Rightarrow> exn option) \<Rightarrow> int \<Rightarrow> client \<Rightarrow> string \<Rightarrow> (string \<rightharpoonup> nat) option
     \<Rightarrow> result \<times> client \<times> action list" where
  "join_channel ws_send now s channel_id cbs =
     (case websocket s of
        None \<Rightarrow> (Inl not_connected, s, [])
      | Some h \<Rightarrow>
          if \<not> connected s then (Inl not_connected, s, [])
          else
            let tp = ''channel:'' @ channel_id;
                join_message = envelope tp ''phx_join'' (JObj []) (make_ref now)
            in (case ws_send h join_message of
                  Some e \<Rightarrow> (Inl e, s, [Send h join_message])
                | None \<Rightarrow>
                    (Inr (),
                     s\<lparr>channels := AList.update channel_id
                          \<lparr>topic = tp,
                           callbacks = (case cbs of None \<Rightarrow> Map.empty | Some c \<Rightarrow> c)\<rparr>
                          (channels s)\<rparr>,
                     [Send h join_message, Log_info (''Joined channel: '' @ channel_id)])))"

definition leave_channel ::
  "(nat \<Rightarrow> json \<Rightarrow> exn option) \<Rightarrow> int \<Rightarrow> client \<Rightarrow> string
     \<Rightarrow> result \<times> client \<times> action list" where
  "leave_channel ws_send now s channel_id =
     (case map_of (channels s) channel_id of
        None \<Rightarrow> (Inr (), s, [])
      | Some info \<Rightarrow>
          let removed = s\<lparr>channels := AList.delete channel_id (channels s)\<rparr>;
              left = Log_info (''Left channel: '' @ channel_id)
          in (case websocket s of
                None \<Rightarrow> (Inr (), removed, [left])
              | Some h \<Rightarrow>
                  if \<not> connected s then (Inr (), removed, [left])
                  else
                    let leave_message = envelope (topic info) ''phx_leave'' (JObj []) (make_ref now)
                    in (case ws_send h leave_message of
                          Some e \<Rightarrow> (Inl e, s, [Send h leave_message])
                        | None \<Rightarrow> (Inr (), removed, [Send h leave_message, left]))))"

definition send_channel_event ::
  "(nat \<Rightarrow> json \<Rightarrow> exn option) \<Rightarrow> int \<Rightarrow> client \<Rightarrow> string \<Rightarrow> string \<Rightarrow> json
     \<Rightarrow> result \<times> client \<times> action list" where
  "send_channel_event ws_send now s channel_id event payload =
     (case websocket s of
        None \<Rightarrow> (Inl not_connected, s, [])
      | Some h \<Rightarrow>
          if \<not> connected s then (Inl not_connected, s, [])
          else (case map_of (channels s) channel_id of
                  None \<Rightarrow> (Inl (not_joined channel_id), s, [])
                | Some info \<Rightarrow>
                    let message = envelope (topic info) event payload (make_ref now)
                    in (case ws_send h message of
                          Some e \<Rightarrow> (Inl e, s, [Send h message])
                        | None \<Rightarrow> (Inr (), s, [Send h message]))))"

text \<open>
  The nine public senders. \<open>send_message\<close> reads the clock once more, before the
  call, for the default of \<open>temp_id\<close> (\<open>temp_id or str(...)\<close>: \<open>None\<close> and the empty
  string both take the default).
\<close>

definition send_message ::
  "(nat \<Rightarrow> json \<Rightarrow> exn option) \<Rightarrow> int \<Rightarrow> int \<Rightarrow> client \<Rightarrow> string \<Rightarrow> string \<Rightarrow> string option
     \<Rightarrow> result \<times> client \<times> action list" where
  "send_message ws_send now0 now s channel_id content temp_id =
     send_channel_event ws_send now s channel_id ''send_message''
       (JObj [(''content'', JStr content),
              (''temp_id'', JStr (case temp_id of
                                   None \<Rightarrow> str_int now0
                                 | Some t \<Rightarrow> if t = [] then str_int now0 else t))])"

definition edit_message ::
  "(nat \<Rightarrow> json \<Rightarrow> exn option) \<Rightarrow> int \<Rightarrow> client \<Rightarrow> string \<Rightarrow> string \<Rightarrow> string
     \<Rightarrow> result \<times> client \<times> action list" where
  "edit_message ws_send now s channel_id message_id content =
     send_channel_event ws_send now s channel_id ''edit_message''
       (JObj [(''message_id'', JStr message_id), (''content'', JStr content)])"

definition delete_message ::
  "(nat \<Rightarrow> json \<Rightarrow> exn option) \<Rightarrow> int \<Rightarrow> client \<Rightarrow> string \<Rightarrow> string
     \<Rightarrow> result \<times> client \<times> action list" where
  "delete_message ws_send now s channel_id message_id =
     send_channel_event ws_send now s channel_id ''delete_message''
       (JObj [(''message_id'', JStr message_id)])"

definition start_typing ::
  "(nat \<Rightarrow> json \<Rightarrow> exn option) \<Rightarrow> int \<Rightarrow> client \<Rightarrow> string \<Rightarrow> result \<times> client \<times> action list" where
  "start_typing ws_send now s channel_id =
     send_channel_event ws_send now s channel_id ''typing_start'' (JObj [])"

definition stop_typing ::
  "(nat \<Rightarrow> json \<Rightarrow> exn option) \<Rightarrow> int \<Rightarrow> client \<Rightarrow> string \<Rightarrow> result \<times> client \<times> action list" where
  "stop_typing ws_send now s channel_id =
     send_channel_event ws_send now s channel_id ''typing_stop'' (JObj [])"

definition add_reaction ::
  "(nat \<Rightarrow> json \<Rightarrow> exn option) \<Rightarrow> int \<Rightarrow> client \<Rightarrow> string \<Rightarrow> string \<Rightarrow> string
     \<Rightarrow> result \<times> client \<times> action list" where
  "add_reaction ws_send now s channel_id message_id emoji =
     send_channel_event ws_send now s channel_id ''add_reaction''
       (JObj [(''message_id'', JStr message_id), (''emoji'', JStr emoji)])"

definition remove_reaction ::
  "(nat \<Rightarrow> json \<Rightarrow> exn option) \<Rightarrow> int \<Rightarrow> client \<Rightarrow> string \<Rightarrow> string
     \<Rightarrow> result \<times> client \<times> action list" where
  "remove_reaction ws_send now s channel_id reaction_id =
     send_channel_event ws_send now s channel_id ''remove_reaction''
       (JObj [(''reaction_id'', JStr reaction_id)])"

definition mark_as_read ::
  "(nat \<Rightarrow> json \<Rightarrow> exn option) \<Rightarrow> int \<Rightarrow> client \<Rightarrow> string \<Rightarrow> string
     \<Rightarrow> result \<times> client \<times> action list" where
  "mark_as_read ws_send now s channel_id message_id =
     send_channel_event ws_send now s channel_id ''mark_read''
       (JObj [(''message_id'', JStr message_id)])"

definition load_older_messages ::
  "(nat \<Rightarrow> json \<Rightarrow> exn option) \<Rightarrow> int \<Rightarrow> client \<Rightarrow> string \<Rightarrow> string
     \<Rightarrow> result \<times> client \<times> action list" where
  "load_older_messages ws_send now s channel_id before_id =
     send_channel_event ws_send now s channel_id ''load_older_messages''
       (JObj [(''before_id'', JStr before_id)])"

text \<open>A call of any one of the nine senders, with its arguments after the channel id.\<close>

datatype sender_call =
  Send_message string "string option"
| Edit_message string string
| Delete_message string
| Start_typing
| Stop_typing
| Add_reaction string string
| Remove_reaction string
| Mark_as_read string
| Load_older_messages string

fun call_sender ::
  "(nat \<Rightarrow> json \<Rightarrow> exn option) \<Rightarrow> int \<Rightarrow> int \<Rightarrow> client \<Rightarrow> string \<Rightarrow> sender_call
     \<Rightarrow> result \<times> client \<times> action list" where
  "call_sender ws_send now0 now s cid (Send_message content temp_id) =
     send_message ws_send now0 now s cid content temp_id"
| "call_sender ws_send now0 now s cid (Edit_message message_id content) =
     edit_message ws_send now s cid message_id content"
| "call_sender ws_send now0 now s cid (Delete_message message_id) =
     delete_message ws_send now s cid message_id"
| "call_sender ws_send now0 now s cid Start_typing = start_typing ws_send now s cid"
| "call_sender ws_send now0 now s cid Stop_typing = stop_typing ws_send now s cid"
| "call_sender ws_send now0 now s cid (Add_reaction message_id emoji) =
     add_reaction ws_send now s cid message_id emoji"
| "call_sender ws_send now0 now s cid (Remove_reaction reaction_id) =
     remove_reaction ws_send now s cid reaction_id"
| "call_sender ws_send now0 now s cid (Mark_as_read message_id) =
     mark_as_read ws_send now s cid message_id"
| "call_sender ws_send now0 now s cid (Load_older_messages before_id) =
     load_older_messages ws_send now s cid before_id"

subsection \<open>Global handlers and the dispatch of an inbound message\<close>

definition on :: "client \<Rightarrow> string \<Rightarrow> nat \<Rightarrow> client" where
  "on s event handler =
     s\<lparr>event_handlers := (event_handlers s)
         (event \<mapsto> (case event_handlers s event of None \<Rightarrow> [] | Some hs \<Rightarrow> hs) @ [handler])\<rparr>"

text \<open>
  The linear scan \<open>for cid, channel_info in self.channels.items()\<close>: the first
  channel whose recorded topic equals the message's topic. A topic that is not a
  string equals no recorded topic.
\<close>

fun find_channel :: "(string \<times> channel_info) list \<Rightarrow> json \<Rightarrow> string option" where
  "find_channel [] tp = None"
| "find_channel ((cid, info) # rest) tp =
     (if JStr (topic info) = tp then Some cid else find_channel rest tp)"

text \<open>\<open>d[key]\<close> on a dictionary with string keys.\<close>

fun dict_index :: "(string \<rightharpoonup> 'a) \<Rightarrow> json \<Rightarrow> exn + 'a" where
  "dict_index d (JStr k) =
     (case d k of None \<Rightarrow> Inl (Exn KeyError ([CHR 0x27] @ k @ [CHR 0x27])) | Some v \<Rightarrow> Inr v)"
| "dict_index d v = Inl (Exn KeyError (py_type v))"

text \<open>
  The block under \<open>if channel_id:\<close>. The test is Python truthiness: it fails for
  \<open>None\<close> (no channel found) and for the empty string.
\<close>

definition dispatch_channel ::
  "(nat \<Rightarrow> json \<Rightarrow> exn option) \<Rightarrow> client \<Rightarrow> string option \<Rightarrow> json \<Rightarrow> json
     \<Rightarrow> result \<times> action list" where
  "dispatch_channel run s channel_id event payload =
     (case channel_id of
        None \<Rightarrow> (Inr (), [])
      | Some cid \<Rightarrow>
          if cid = [] then (Inr (), [])
          else (case map_of (channels s) cid of
            None \<Rightarrow> (Inl (Exn KeyError ([CHR 0x27] @ cid @ [CHR 0x27])), [])
          | Some info \<Rightarrow>
              (case dict_contains (callbacks info) event of
                 Inl e \<Rightarrow> (Inl e, [])
               | Inr False \<Rightarrow> (Inr (), [])
               | Inr True \<Rightarrow>
                   (case dict_index (callbacks info) event of
                      Inl e \<Rightarrow> (Inl e, [])
                    | Inr cb \<Rightarrow>
                        (Inr (),
                         Call_callback cb payload #
                         (case run cb payload of
                            None \<Rightarrow> []
                          | Some e \<Rightarrow>
                              [Log_error (''Error in callback for '' @ fmt event @ '': ''
                                          @ exn_str e)]))))))"

text \<open>The loop \<open>for handler in self.event_handlers[event]\<close> with its \<open>try\<close>.\<close>

fun run_handlers ::
  "(nat \<Rightarrow> json \<Rightarrow> exn option) \<Rightarrow> json \<Rightarrow> json \<Rightarrow> nat list \<Rightarrow> action list" where
  "run_handlers run event payload [] = []"
| "run_handlers run event payload (h # hs) =
     Call_handler h payload #
     (case run h payload of
        None \<Rightarrow> []
      | Some e \<Rightarrow> [Log_error (''Error in global handler for '' @ fmt event @ '': '' @ exn_str e)])
     @ run_handlers run event payload hs"

definition dispatch_global ::
  "(nat \<Rightarrow> json \<Rightarrow> exn option) \<Rightarrow> client \<Rightarrow> json \<Rightarrow> json \<Rightarrow> result \<times> action list" where
  "dispatch_global run s event payload =
     (case dict_contains (event_handlers s) event of
        Inl e \<Rightarrow> (Inl e, [])
      | Inr False \<Rightarrow> (Inr (), [])
      | Inr True \<Rightarrow>
          (case dict_index (event_handlers s) event of
             Inl e \<Rightarrow> (Inl e, [])
           | Inr hs \<Rightarrow> (Inr (), run_handlers run event payload hs)))"

text \<open>
  \<open>_handle_message\<close>. \<open>message.get\<close> exists on a dictionary only: any other JSON
  value raises \<open>AttributeError\<close>. An exception of the first block leaves the
  function before the global handlers are reached.
\<close>

definition handle_message ::
  "(nat \<Rightarrow> json \<Rightarrow> exn option) \<Rightarrow> client \<Rightarrow> json \<Rightarrow> result \<times> action list" where
  "handle_message run s message =
     (case message of
        JObj m \<Rightarrow>
          let tp = dict_get m ''topic'' (JStr []);
              event = dict_get m ''event'' (JStr []);
              payload = dict_get m ''payload'' (JObj []);
              channel_id = find_channel (channels s) tp
          in (case dispatch_channel run s channel_id event payload of
                (Inl e, tr) \<Rightarrow> (Inl e, tr)
              | (Inr u, tr) \<Rightarrow>
                  (case dispatch_global run s event payload of
                     (Inl e, tr') \<Rightarrow> (Inl e, tr @ tr')
                   | (Inr u', tr') \<Rightarrow> (Inr (), tr @ tr')))
      | _ \<Rightarrow>
          (Inl (Exn AttributeError
                  ([CHR 0x27] @ py_type message @ [CHR 0x27] @ '' object has no attribute ''
                   @ [CHR 0x27] @ ''get'' @ [CHR 0x27])),
           []))"

subsection \<open>The receive loop\<close>

text \<open>
  What one \<open>await self.websocket.recv()\<close> produces: an exception, or a frame. A frame
  is given by what \<open>json.loads\<close> makes of it: a JSON value, or a \<open>JSONDecodeError\<close>
  with the decoder's text.
\<close>

datatype frame = Json_text json | Bad_text string






text \<open>
  The loop does not write \<open>self._listen_task\<close>: the field \<open>listen_task\<close> is left as it
  is, and whether the task is still pending or has finished by the time \<open>disconnect\<close>
  runs is open. \<open>disconnect\<close> is defined, and its property proved, for every value
  of the field.
\<close>

subsection \<open>Handlers that raise outside \<open>Exception\<close>\<close>

text \<open>
  The dispatch and the loop above take handlers that return or raise an instance of
  \<open>Exception\<close>. A Python callable can also raise an exception that is not one:
  \<open>asyncio.CancelledError\<close> (since Python 3.8), \<open>KeyboardInterrupt\<close>, \<open>SystemExit\<close>,
  \<open>GeneratorExit\<close>. The clauses \<open>except Exception\<close> of \<open>_handle_message\<close> and of
  \<open>_listen_for_messages\<close> do not catch these, and neither do the clauses for
  \<open>ConnectionClosed\<close> and \<open>WebSocketException\<close>. The definitions below are the same
  functions again, for handlers that may raise either kind; they differ from the ones
  above exactly where a handler is invoked and where the exception reaches the
  \<open>except\<close> clauses. On handlers that stay within \<open>Exception\<close> the two agree.
\<close>

datatype base_exn = CancelledError | KeyboardInterrupt | SystemExit | GeneratorExit









subsection \<open>Reading an outcome\<close>

definition result_of :: "'r \<times> client \<times> action list \<Rightarrow> 'r" where
  "result_of out = fst out"

definition state_of :: "'r \<times> client \<times> action list \<Rightarrow> client" where
  "state_of out = fst (snd out)"

definition trace_of :: "'r \<times> client \<times> action list \<Rightarrow> action list" where
  "trace_of out = snd (snd out)"

text \<open>The URIs opened, the frames handed to \<open>websocket.send\<close>, and the handlers invoked.\<close>

fun opened :: "action list \<Rightarrow> string list" where
  "opened [] = []"
| "opened (Open u # tr) = u # opened tr"
| "opened (a # tr) = opened tr"

fun sent :: "action list \<Rightarrow> (nat \<times> json) list" where
  "sent [] = []"
| "sent (Send h m # tr) = (h, m) # sent tr"
| "sent (a # tr) = sent tr"

fun callback_calls :: "action list \<Rightarrow> (nat \<times> json) list" where
  "callback_calls [] = []"
| "callback_calls (Call_callback h p # tr) = (h, p) # callback_calls tr"
| "callback_calls (a # tr) = callback_calls tr"

fun handler_calls :: "action list \<Rightarrow> (nat \<times> json) list" where
  "handler_calls [] = []"
| "handler_calls (Call_handler h p # tr) = (h, p) # handler_calls tr"
| "handler_calls (a # tr) = handler_calls tr"

text \<open>The handlers registered for an event name, in registration order.\<close>

definition registered :: "client \<Rightarrow> string \<Rightarrow> nat list" where
  "registered s event = (case event_handlers s event of None \<Rightarrow> [] | Some hs \<Rightarrow> hs)"

subsection \<open>Notions the properties are stated with\<close>

text \<open>Some joined channel records this topic.\<close>

definition topic_joined :: "client \<Rightarrow> json \<Rightarrow> bool" where
  "topic_joined s tp \<longleftrightarrow> list_ex (\<lambda>(cid, info). JStr (topic info) = tp) (channels s)"

text \<open>Python can hash every parsed JSON value except a list and a dict.\<close>

fun hashable :: "json \<Rightarrow> bool" where
  "hashable (JArr xs) = False"
| "hashable (JObj kvs) = False"
| "hashable v = True"




text \<open>
  Sequences of \<open>join_channel\<close> and \<open>leave_channel\<close> calls. A step is a call together
  with the clock reading and with what \<open>websocket.send\<close> does if the call hands a
  frame to it: \<open>None\<close> when it accepts the frame, \<open>Some e\<close> when it raises \<open>e\<close>. (A call
  sends at most one frame.) \<open>run_calls\<close> performs the steps in order.
\<close>

datatype call = Join string "(string \<rightharpoonup> nat) option" | Leave string

type_synonym step = "exn option \<times> int \<times> call"

fun perform :: "client \<Rightarrow> step \<Rightarrow> result \<times> client \<times> action list" where
  "perform s (outcome, now, Join channel_id cbs) =
     join_channel (\<lambda>h m. outcome) now s channel_id cbs"
| "perform s (outcome, now, Leave channel_id) =
     leave_channel (\<lambda>h m. outcome) now s channel_id"

fun run_calls :: "client \<Rightarrow> step list \<Rightarrow> client" where
  "run_calls s [] = s"
| "run_calls s (st # sts) = run_calls (state_of (perform s st)) sts"

definition calls_of :: "step list \<Rightarrow> call list" where
  "calls_of steps = map (\<lambda>st. snd (snd st)) steps"

text \<open>
  The channels joined and not subsequently left on a connected client, a call
  counting when the transport accepted its frame: a join or a leave whose send
  raises changes nothing. (Leaving a channel that is not joined sends nothing and
  changes nothing.)
\<close>

fun tracked :: "string set \<Rightarrow> step list \<Rightarrow> string set" where
  "tracked S [] = S"
| "tracked S ((None, now, Join channel_id cbs) # sts) = tracked (insert channel_id S) sts"
| "tracked S ((None, now, Leave channel_id) # sts) = tracked (S - {channel_id}) sts"
| "tracked S ((Some e, now, c) # sts) = tracked S sts"

text \<open>The transport accepts the frame of every step.\<close>

definition all_accepted :: "step list \<Rightarrow> bool" where
  "all_accepted steps \<longleftrightarrow> list_all (\<lambda>st. fst st = None) steps"

text \<open>
  The channels joined and not subsequently left, counting every call as made,
  whatever the transport did.
\<close>

fun requested :: "string set \<Rightarrow> call list \<Rightarrow> string set" where
  "requested S [] = S"
| "requested S (Join channel_id cbs # cs) = requested (insert channel_id S) cs"
| "requested S (Leave channel_id # cs) = requested (S - {channel_id}) cs"

subsection \<open>Concrete collaborators and states for the examples\<close>

definition send_ok :: "nat \<Rightarrow> json \<Rightarrow> exn option" where
  "send_ok h m = None"

definition send_broken :: "nat \<Rightarrow> json \<Rightarrow> exn option" where
  "send_broken h m = Some (Exn ConnectionClosed ''no close frame received or sent'')"

definition connect_refused :: "string \<Rightarrow> exn + nat" where
  "connect_refused uri = Inl (Exn OtherException ''Connection refused'')"

definition quiet :: "nat \<Rightarrow> json \<Rightarrow> exn option" where
  "quiet h p = None"

definition failing :: "nat \<Rightarrow> json \<Rightarrow> exn option" where
  "failing h p = Some (Exn OtherException ''boom'')"

definition fresh :: client where
  "fresh = init default_url"

text \<open>A connected client that has joined channel \<open>c1\<close> with a callback for \<open>new_message\<close>.\<close>

definition in_c1 :: client where
  "in_c1 = \<lparr> url = default_url, websocket = Some 1,
             channels = [(''c1'', \<lparr>topic = ''channel:c1'', callbacks = [''new_message'' \<mapsto> 5]\<rparr>)],
             event_handlers = Map.empty, connected = True, listen_task = Some Pending \<rparr>"

text \<open>The same client with two global handlers for \<open>typing_start\<close>, registered in this order.\<close>

definition with_handlers :: client where
  "with_handlers = on (on in_c1 ''typing_start'' 7) ''typing_start'' 8"

definition typing_elsewhere :: json where
  "typing_elsewhere =
     JObj [(''topic'', JStr ''channel:zz''), (''event'', JStr ''typing_start''),
           (''payload'', JObj [(''user_name'', JStr ''ann'')])]"


definition list_event_elsewhere :: json where
  "list_event_elsewhere = JObj [(''topic'', JStr ''channel:zz''), (''event'', JArr [])]"



text \<open>
  Three sequences of calls on the client in channel \<open>c1\<close>. In the first the transport
  raises on the third call; in the second it accepts every frame; the third joins
  \<open>c2\<close> and then leaves it over a transport that raises.
\<close>

definition steps_mixed :: "step list" where
  "steps_mixed = [(None, 1, Join ''c2'' None), (None, 2, Join ''c1'' None),
                  (Some (Exn ConnectionClosed ''no close frame received or sent''), 3, Leave ''c2''),
                  (None, 4, Leave ''c1'')]"

definition steps_ok :: "step list" where
  "steps_ok = [(None, 1, Join ''c2'' None), (None, 2, Join ''c1'' None), (None, 3, Leave ''c1'')]"

definition steps_failed_leave :: "step list" where
  "steps_failed_leave =
     [(None, 1, Join ''c2'' None),
      (Some (Exn ConnectionClosed ''no close frame received or sent''), 2, Leave ''c2'')]"



section \<open>Auxiliary facts\<close>


lemma call_sender_guards:
  "(\<not> active s \<longrightarrow> call_sender ws_send t0 t s cid c = (Inl not_connected, s, []))
   \<and> (active s \<and> \<not> joined s cid \<longrightarrow>
        call_sender ws_send t0 t s cid c = (Inl (not_joined cid), s, []))"
  by (cases c)
     (auto simp: active_def joined_def send_channel_event_def send_message_def edit_message_def
        delete_message_def start_typing_def stop_typing_def add_reaction_def remove_reaction_def
        mark_as_read_def load_older_messages_def split: option.splits)

subsection \<open>Dispatch of one message\<close>

lemma find_channel_None_iff:
  "find_channel chs tp = None \<longleftrightarrow> \<not> list_ex (\<lambda>(cid, info). JStr (topic info) = tp) chs"
  by (induction chs tp rule: find_channel.induct) auto

lemma find_channel_Some_key:
  "find_channel chs tp = Some cid \<Longrightarrow> map_of chs cid \<noteq> None"
  by (induction chs tp rule: find_channel.induct) (auto split: if_splits)

lemma handler_calls_append [simp]: "handler_calls (xs @ ys) = handler_calls xs @ handler_calls ys"
  by (induction xs rule: handler_calls.induct) auto

lemma callback_calls_append [simp]: "callback_calls (xs @ ys) = callback_calls xs @ callback_calls ys"
  by (induction xs rule: callback_calls.induct) auto

lemma handler_calls_run_handlers:
  "handler_calls (run_handlers run ev p hs) = map (\<lambda>h. (h, p)) hs"
  by (induction hs) (auto split: option.splits)

lemma callback_calls_run_handlers:
  "callback_calls (run_handlers run ev p hs) = []"
  by (induction hs) (auto split: option.splits)

lemma dispatch_global_str:
  "dispatch_global run s (JStr ev) p = (Inr (), run_handlers run (JStr ev) p (registered s ev))"
  by (auto simp: dispatch_global_def registered_def split: option.splits)

lemma dispatch_channel_handler_calls:
  "handler_calls (snd (dispatch_channel run s c ev p)) = []"
  by (auto simp: dispatch_channel_def split: option.splits sum.splits bool.splits)

lemma dispatch_channel_str_ok:
  "c = None \<or> (\<exists>cid. c = Some cid \<and> map_of (channels s) cid \<noteq> None)
   \<Longrightarrow> fst (dispatch_channel run s c (JStr ev) p) = Inr ()"
  by (auto simp: dispatch_channel_def split: option.splits sum.splits bool.splits)


lemma dispatch_global_quiet:
  "fst (dispatch_global run s ev p) = fst (dispatch_global quiet s ev p)
   \<and> handler_calls (snd (dispatch_global run s ev p)) = handler_calls (snd (dispatch_global quiet s ev p))
   \<and> callback_calls (snd (dispatch_global run s ev p)) = []"
  by (auto simp: dispatch_global_def handler_calls_run_handlers callback_calls_run_handlers
      split: option.splits sum.splits bool.splits)

lemma handle_message_str:
  assumes "dict_get m ''event'' (JStr []) = JStr ev"
  shows "handle_message run s (JObj m) =
    (Inr (),
     snd (dispatch_channel run s (find_channel (channels s) (dict_get m ''topic'' (JStr [])))
            (JStr ev) (dict_get m ''payload'' (JObj [])))
     @ run_handlers run (JStr ev) (dict_get m ''payload'' (JObj [])) (registered s ev))"
proof -
  let ?c = "find_channel (channels s) (dict_get m ''topic'' (JStr []))"
  let ?p = "dict_get m ''payload'' (JObj [])"
  have "?c = None \<or> (\<exists>cid. ?c = Some cid \<and> map_of (channels s) cid \<noteq> None)"
    using find_channel_Some_key [of "channels s"] by (cases ?c) auto
  then have "fst (dispatch_channel run s ?c (JStr ev) ?p) = Inr ()"
    by (rule dispatch_channel_str_ok)
  then obtain tr where "dispatch_channel run s ?c (JStr ev) ?p = (Inr (), tr)"
    by (cases "dispatch_channel run s ?c (JStr ev) ?p") auto
  then show ?thesis
    using assms by (simp add: handle_message_def Let_def dispatch_global_str)
qed



lemma registered_on:
  "registered (on s ev h) ev' = (if ev' = ev then registered s ev @ [h] else registered s ev')"
  by (simp add: registered_def on_def)

lemma topic_joined_find:
  "\<not> topic_joined s tp \<Longrightarrow> find_channel (channels s) tp = None"
  by (simp add: topic_joined_def find_channel_None_iff)

lemma dispatch_global_hashable:
  "hashable ev \<Longrightarrow> fst (dispatch_global run s ev p) = Inr ()"
proof (cases ev)
  case (JStr k)
  then show ?thesis by (simp add: dispatch_global_str)
qed (simp_all add: dispatch_global_def)

lemma dispatch_global_nothing:
  "hashable ev \<Longrightarrow> registered s (fmt ev) = [] \<Longrightarrow> dispatch_global run s ev p = (Inr (), [])"
proof (cases ev)
  case (JStr k)
  assume "registered s (fmt ev) = []"
  with JStr show ?thesis by (simp add: dispatch_global_str)
qed (simp_all add: dispatch_global_def)

lemma run_handlers_empty_iff:
  "run_handlers run ev p hs = [] \<longleftrightarrow> hs = []"
  by (cases hs) simp_all

lemma handle_message_unmatched_str:
  assumes "\<not> topic_joined s (dict_get m ''topic'' (JStr []))"
    and "dict_get m ''event'' (JStr []) = JStr ev"
  shows "handle_message run s (JObj m)
    = (Inr (), run_handlers run (JStr ev) (dict_get m ''payload'' (JObj [])) (registered s ev))"
  using assms by (simp add: handle_message_str topic_joined_find dispatch_channel_def)

subsection \<open>The receive loop\<close>












subsection \<open>Sequences of join and leave\<close>

lemma joined_iff: "joined s cid \<longleftrightarrow> cid \<in> fst ` set (channels s)"
  by (simp add: joined_def map_of_eq_None_iff)

lemma perform_active:
  "active (state_of (perform s st)) = active s"
  by (cases "(s, st)" rule: perform.cases)
     (auto simp: join_channel_def leave_channel_def active_def state_of_def Let_def
        split: option.splits if_splits)

lemma perform_keys:
  assumes "active s"
  shows "map fst (channels (state_of (perform s (out, now, c)))) =
    (case out of
       Some e \<Rightarrow> map fst (channels s)
     | None \<Rightarrow>
        (case c of
           Join cid cbs \<Rightarrow>
             if cid \<in> set (map fst (channels s)) then map fst (channels s)
             else map fst (channels s) @ [cid]
         | Leave cid \<Rightarrow> removeAll cid (map fst (channels s))))"
proof (cases c)
  case (Join cid cbs)
  with assms show ?thesis
    by (auto simp: join_channel_def active_def state_of_def Let_def update_keys
        split: option.splits)
next
  case (Leave cid)
  with assms show ?thesis
    by (auto simp: leave_channel_def active_def state_of_def Let_def delete_keys
        map_of_eq_None_iff image_iff split: option.splits)
qed

lemma perform_tracked:
  assumes "active s"
  shows "fst ` set (channels (state_of (perform s st))) = tracked (fst ` set (channels s)) [st]"
proof -
  obtain out now c where st: "st = (out, now, c)" by (cases st)
  have "set (map fst (channels (state_of (perform s (out, now, c)))))
      = tracked (set (map fst (channels s))) [(out, now, c)]"
    unfolding perform_keys [OF assms]
    by (cases out; cases c) auto
  with st show ?thesis by simp
qed

lemma perform_distinct:
  assumes "active s" "distinct (map fst (channels s))"
  shows "distinct (map fst (channels (state_of (perform s st))))"
proof -
  obtain out now c where st: "st = (out, now, c)" by (cases st)
  show ?thesis using assms(2) unfolding st perform_keys [OF assms(1)]
    by (cases out; cases c) (auto simp: distinct_removeAll)
qed

lemma tracked_cons: "tracked S (st # sts) = tracked (tracked S [st]) sts"
  by (cases "(S, [st])" rule: tracked.cases) auto

lemma run_calls_tracked:
  "active s \<Longrightarrow> distinct (map fst (channels s)) \<Longrightarrow>
     fst ` set (channels (run_calls s steps)) = tracked (fst ` set (channels s)) steps
     \<and> distinct (map fst (channels (run_calls s steps)))"
proof (induction steps arbitrary: s)
  case Nil
  then show ?case by simp
next
  case (Cons st steps)
  let ?s1 = "state_of (perform s st)"
  from Cons.prems have a: "active ?s1" by (simp add: perform_active)
  from Cons.prems have d: "distinct (map fst (channels ?s1))" by (rule perform_distinct)
  have "tracked (fst ` set (channels s)) (st # steps)
      = tracked (tracked (fst ` set (channels s)) [st]) steps"
    by (rule tracked_cons)
  also have "tracked (fst ` set (channels s)) [st] = fst ` set (channels ?s1)"
    using Cons.prems(1) by (rule perform_tracked [symmetric])
  finally show ?case using Cons.IH [OF a d] by simp
qed

lemma tracked_requested:
  "all_accepted steps \<Longrightarrow> tracked S steps = requested S (calls_of steps)"
proof (induction steps arbitrary: S)
  case Nil
  then show ?case by (simp add: calls_of_def)
next
  case (Cons st steps)
  obtain out now c where st: "st = (out, now, c)" by (cases st)
  with Cons show ?case by (cases c) (simp_all add: calls_of_def all_accepted_def)
qed

subsection \<open>Handlers that raise outside \<open>Exception\<close>\<close>

















section \<open>Properties of the client\<close>

subsection \<open>Channel-scoped senders\<close>

text \<open>
  Claim C1, as the code has it. The two errors are both \<open>SlackCloneError\<close>, told apart
  by their message: \<open>not_connected\<close> and \<open>not_joined\<close>. For each of the nine senders and
  every client state: when the connection is not active the call raises
  \<open>not_connected\<close>, whether or not the channel is joined; when the connection is active
  and the channel is not joined it raises \<open>not_joined\<close>; in both cases the state is
  unchanged and nothing is handed to the transport.
\<close>

theorem sender_guards:
  "(\<not> active s \<longrightarrow>
      result_of (call_sender ws_send t0 t s cid c) = Inl not_connected
      \<and> state_of (call_sender ws_send t0 t s cid c) = s
      \<and> sent (trace_of (call_sender ws_send t0 t s cid c)) = [])
   \<and> (active s \<and> \<not> joined s cid \<longrightarrow>
      result_of (call_sender ws_send t0 t s cid c) = Inl (not_joined cid)
      \<and> state_of (call_sender ws_send t0 t s cid c) = s
      \<and> sent (trace_of (call_sender ws_send t0 t s cid c)) = [])"
  using call_sender_guards [of s ws_send t0 t cid c]
  by (auto simp: result_of_def state_of_def trace_of_def)

text \<open>The theorem at a client that was never connected, and at a connected one.\<close>

theorem sender_guards_witness:
  "\<not> active fresh
   \<and> result_of (call_sender send_ok 0 0 fresh ''c1'' Start_typing) = Inl not_connected
   \<and> sent (trace_of (call_sender send_ok 0 0 fresh ''c1'' Start_typing)) = []
   \<and> active in_c1 \<and> \<not> joined in_c1 ''c2''
   \<and> result_of (call_sender send_ok 0 0 in_c1 ''c2'' Start_typing) = Inl (not_joined ''c2'')
   \<and> sent (trace_of (call_sender send_ok 0 0 in_c1 ''c2'' Start_typing)) = []"
proof -
  have a: "\<not> active fresh"
    by (simp add: active_def fresh_def init_def)
  have b: "active in_c1 \<and> \<not> joined in_c1 ''c2''"
    by (simp add: active_def joined_def in_c1_def)
  from a b sender_guards [of fresh send_ok 0 0 "''c1''" Start_typing]
    sender_guards [of in_c1 send_ok 0 0 "''c2''" Start_typing]
  show ?thesis by simp
qed

text \<open>
  Claim C1 as it is written fails: on a client that is not connected, a sender called
  for a channel that is not joined raises the not-connected error, not the
  not-joined one.
\<close>

theorem sender_unjoined_counterexample:
  "\<not> joined fresh ''c1''
   \<and> result_of (send_message send_ok 0 0 fresh ''c1'' ''hi'' None) = Inl not_connected
   \<and> not_connected \<noteq> not_joined ''c1''"
  by (simp add: joined_def fresh_def init_def send_message_def send_channel_event_def
      result_of_def not_connected_def not_joined_def)

subsection \<open>leave\<close>

text \<open>
  Claim C3, as the code has it. \<open>leave_channel\<close> does nothing when the channel is not
  joined. When it is joined and the connection is active, one frame is handed to the
  transport: the \<open>phx_leave\<close> envelope for the recorded topic, with the reference made
  from the clock reading of the call. When it is joined and the connection is not
  active, nothing is sent and the call returns. Whenever the call returns for a
  joined channel, the channel's record is gone. When the call raises, the exception
  is the one the transport raised for the frame, and the state, the record included,
  is unchanged. On an active connection the transport decides: when it raises on the
  leave frame, the call raises that exception and the channel stays joined; when it
  accepts the frame, the call returns.
\<close>

theorem leave_channel_cases:
  "(\<not> joined s cid \<longrightarrow> leave_channel ws_send now s cid = (Inr (), s, []))
   \<and> (joined s cid \<and> active s \<longrightarrow>
        (\<exists>h info. websocket s = Some h \<and> map_of (channels s) cid = Some info
           \<and> sent (trace_of (leave_channel ws_send now s cid))
               = [(h, envelope (topic info) ''phx_leave'' (JObj []) (make_ref now))]))
   \<and> (joined s cid \<and> \<not> active s \<longrightarrow>
        result_of (leave_channel ws_send now s cid) = Inr ()
        \<and> sent (trace_of (leave_channel ws_send now s cid)) = [])
   \<and> (joined s cid \<and> result_of (leave_channel ws_send now s cid) = Inr () \<longrightarrow>
        \<not> joined (state_of (leave_channel ws_send now s cid)) cid
        \<and> channels (state_of (leave_channel ws_send now s cid)) = AList.delete cid (channels s))
   \<and> (\<forall>e. result_of (leave_channel ws_send now s cid) = Inl e \<longrightarrow>
        state_of (leave_channel ws_send now s cid) = s
        \<and> (\<exists>h m. ws_send h m = Some e
              \<and> sent (trace_of (leave_channel ws_send now s cid)) = [(h, m)]))
   \<and> (\<forall>h info e. active s \<and> websocket s = Some h \<and> map_of (channels s) cid = Some info
          \<and> ws_send h (envelope (topic info) ''phx_leave'' (JObj []) (make_ref now)) = Some e \<longrightarrow>
        result_of (leave_channel ws_send now s cid) = Inl e
        \<and> state_of (leave_channel ws_send now s cid) = s
        \<and> joined (state_of (leave_channel ws_send now s cid)) cid)
   \<and> (\<forall>h info. active s \<and> websocket s = Some h \<and> map_of (channels s) cid = Some info
          \<and> ws_send h (envelope (topic info) ''phx_leave'' (JObj []) (make_ref now)) = None \<longrightarrow>
        result_of (leave_channel ws_send now s cid) = Inr ())"
  by (auto simp: joined_def active_def leave_channel_def result_of_def state_of_def trace_of_def
        Let_def AList.delete_conv split: option.splits)

text \<open>
  The theorem at a connected client in channel \<open>c1\<close>: leaving \<open>c1\<close> at clock reading 42
  over a working transport sends the leave envelope with reference \<open>ref_42\<close> and
  removes the record; leaving \<open>c2\<close>, which is not joined, does nothing; leaving \<open>c1\<close>
  over a transport that raises makes the call raise and keeps the record.
\<close>

theorem leave_channel_cases_witness:
  "joined in_c1 ''c1'' \<and> active in_c1 \<and> \<not> joined in_c1 ''c2''
   \<and> result_of (leave_channel send_ok 42 in_c1 ''c1'') = Inr ()
   \<and> sent (trace_of (leave_channel send_ok 42 in_c1 ''c1''))
       = [(1, JObj [(''topic'', JStr ''channel:c1''), (''event'', JStr ''phx_leave''),
                    (''payload'', JObj []), (''ref'', JStr ''ref_42'')])]
   \<and> \<not> joined (state_of (leave_channel send_ok 42 in_c1 ''c1'')) ''c1''
   \<and> channels (state_of (leave_channel send_ok 42 in_c1 ''c1'')) = []
   \<and> leave_channel send_ok 42 in_c1 ''c2'' = (Inr (), in_c1, [])
   \<and> result_of (leave_channel send_broken 42 in_c1 ''c1'')
       = Inl (Exn ConnectionClosed ''no close frame received or sent'')
   \<and> state_of (leave_channel send_broken 42 in_c1 ''c1'') = in_c1
   \<and> joined (state_of (leave_channel send_broken 42 in_c1 ''c1'')) ''c1''"
proof -
  let ?info = "\<lparr>topic = ''channel:c1'', callbacks = [''new_message'' \<mapsto> 5]\<rparr>"
  have a: "joined in_c1 ''c1'' \<and> active in_c1 \<and> \<not> joined in_c1 ''c2''"
    by (simp add: joined_def active_def in_c1_def)
  have c: "websocket in_c1 = Some 1" "map_of (channels in_c1) ''c1'' = Some ?info"
    "AList.delete ''c1'' (channels in_c1) = []"
    by (simp_all add: in_c1_def AList.delete_eq)
  have d: "make_ref 42 = ''ref_42''"
    by (simp add: make_ref_def str_int_def str_nat.simps)
  have ok: "send_ok 1 (envelope (topic ?info) ''phx_leave'' (JObj []) (make_ref 42)) = None"
    by (simp add: send_ok_def)
  have br: "send_broken 1 (envelope (topic ?info) ''phx_leave'' (JObj []) (make_ref 42))
      = Some (Exn ConnectionClosed ''no close frame received or sent'')"
    by (simp add: send_broken_def)
  note t1 = leave_channel_cases [of in_c1 "''c1''" send_ok 42]
  note t2 = leave_channel_cases [of in_c1 "''c2''" send_ok 42]
  note t3 = leave_channel_cases [of in_c1 "''c1''" send_broken 42]
  from a c ok t1 have r1: "result_of (leave_channel send_ok 42 in_c1 ''c1'') = Inr ()"
    by blast
  from a c br t3 have r3: "result_of (leave_channel send_broken 42 in_c1 ''c1'')
       = Inl (Exn ConnectionClosed ''no close frame received or sent'')
     \<and> state_of (leave_channel send_broken 42 in_c1 ''c1'') = in_c1
     \<and> joined (state_of (leave_channel send_broken 42 in_c1 ''c1'')) ''c1''"
    by blast
  from a r1 c d t1 t2 r3 show ?thesis by (simp add: envelope_def)
qed

text \<open>
  Claim C3 as it is written fails in its last part: when the transport raises on the
  leave frame, \<open>leave_channel\<close> raises too and the channel's record is still there.
\<close>

theorem leave_failed_send_counterexample:
  "joined in_c1 ''c1'' \<and> active in_c1
   \<and> result_of (leave_channel send_broken 0 in_c1 ''c1'')
       = Inl (Exn ConnectionClosed ''no close frame received or sent'')
   \<and> joined (state_of (leave_channel send_broken 0 in_c1 ''c1'')) ''c1''"
  by (simp add: joined_def active_def in_c1_def leave_channel_def send_broken_def
      result_of_def state_of_def Let_def)

subsection \<open>disconnect\<close>


subsection \<open>connect\<close>

text \<open>
  Claim C8. \<open>connect\<close> opens the transport exactly once, on the client's URL followed
  by \<open>?token=\<close> and the credential. When the transport cannot be established, the
  call raises a \<open>SlackCloneError\<close> (the only error class of the client) whose message
  carries the text of the transport's failure, and the client state is unchanged: the
  connection flag keeps its value, false on a client that was not connected, and no
  listen task is created.
\<close>

theorem connect_failure:
  "opened (trace_of (connect ws_connect s token)) = [url s @ ''?token='' @ token]
   \<and> (\<forall>e. ws_connect (url s @ ''?token='' @ token) = Inl e \<longrightarrow>
         result_of (connect ws_connect s token)
           = Inl (Exn SlackCloneError (''WebSocket connection failed: '' @ exn_str e))
         \<and> state_of (connect ws_connect s token) = s
         \<and> connected (state_of (connect ws_connect s token)) = connected s
         \<and> listen_task (state_of (connect ws_connect s token)) = listen_task s)"
  by (auto simp: connect_def trace_of_def result_of_def state_of_def Let_def split: sum.splits)

text \<open>The theorem at a new client whose transport refuses the connection.\<close>

theorem connect_failure_witness:
  "connect_refused (url fresh @ ''?token=abc'') = Inl (Exn OtherException ''Connection refused'')
   \<and> opened (trace_of (connect connect_refused fresh ''abc''))
       = [''ws://localhost:4000/socket/websocket?token=abc'']
   \<and> result_of (connect connect_refused fresh ''abc'')
       = Inl (Exn SlackCloneError ''WebSocket connection failed: Connection refused'')
   \<and> \<not> connected (state_of (connect connect_refused fresh ''abc''))
   \<and> listen_task (state_of (connect connect_refused fresh ''abc'')) = None"
proof -
  have "connect_refused (url fresh @ ''?token=abc'') = Inl (Exn OtherException ''Connection refused'')"
    by (simp add: connect_refused_def)
  with connect_failure [of connect_refused fresh "''abc''"] show ?thesis
    by (simp add: fresh_def init_def default_url_def)
qed

subsection \<open>Dispatch of an inbound message\<close>

text \<open>
  Claim C2, as the code has it. For every inbound frame that is a JSON object and
  whose topic matches the recorded topic of no joined channel: no per-channel
  callback is invoked; when the event field is a string (or any other hashable
  value) the message handler raises no error; when the event field is a string, the
  global handlers registered for that event name are still invoked, each once, in
  registration order, with the frame's payload, and the frame is dropped, the
  handler returning without invoking or logging anything, exactly when no global
  handler is registered for the event name; a frame whose event is another hashable
  value, for which nothing can be registered, is dropped as well.
\<close>

theorem unmatched_topic_handling:
  "\<not> topic_joined s (dict_get m ''topic'' (JStr [])) \<longrightarrow>
     callback_calls (snd (handle_message run s (JObj m))) = []
     \<and> (hashable (dict_get m ''event'' (JStr [])) \<longrightarrow> fst (handle_message run s (JObj m)) = Inr ())
     \<and> (\<forall>ev. dict_get m ''event'' (JStr []) = JStr ev \<longrightarrow>
          handler_calls (snd (handle_message run s (JObj m)))
            = map (\<lambda>h. (h, dict_get m ''payload'' (JObj []))) (registered s ev)
          \<and> (handle_message run s (JObj m) = (Inr (), []) \<longleftrightarrow> registered s ev = []))
     \<and> (hashable (dict_get m ''event'' (JStr []))
          \<and> registered s (fmt (dict_get m ''event'' (JStr []))) = []
          \<longrightarrow> handle_message run s (JObj m) = (Inr (), []))"
proof
  assume a: "\<not> topic_joined s (dict_get m ''topic'' (JStr []))"
  let ?e = "dict_get m ''event'' (JStr [])"
  let ?p = "dict_get m ''payload'' (JObj [])"
  have c: "find_channel (channels s) (dict_get m ''topic'' (JStr [])) = None"
    using a by (rule topic_joined_find)
  have d: "dispatch_channel run s None ?e ?p = (Inr (), [])"
    by (simp add: dispatch_channel_def)
  obtain r tr where g: "dispatch_global run s ?e ?p = (r, tr)"
    by (cases "dispatch_global run s ?e ?p")
  have h: "handle_message run s (JObj m) = (case r of Inl e \<Rightarrow> Inl e | Inr u \<Rightarrow> Inr (), tr)"
    using c d g by (simp add: handle_message_def Let_def split: sum.splits)
  have 1: "callback_calls (snd (handle_message run s (JObj m))) = []"
    using dispatch_global_quiet [of run s ?e ?p] g h by simp
  have 2: "hashable ?e \<longrightarrow> fst (handle_message run s (JObj m)) = Inr ()"
    using dispatch_global_hashable [of ?e run s ?p] g h by auto
  have 3: "\<forall>ev. ?e = JStr ev \<longrightarrow>
          handler_calls (snd (handle_message run s (JObj m)))
            = map (\<lambda>h. (h, ?p)) (registered s ev)
          \<and> (handle_message run s (JObj m) = (Inr (), []) \<longleftrightarrow> registered s ev = [])"
    using a by (simp add: handle_message_unmatched_str handler_calls_run_handlers
        run_handlers_empty_iff)
  have 4: "hashable ?e \<and> registered s (fmt ?e) = [] \<longrightarrow> handle_message run s (JObj m) = (Inr (), [])"
    using dispatch_global_nothing [of ?e s run ?p] g h by auto
  show "callback_calls (snd (handle_message run s (JObj m))) = []
     \<and> (hashable ?e \<longrightarrow> fst (handle_message run s (JObj m)) = Inr ())
     \<and> (\<forall>ev. ?e = JStr ev \<longrightarrow>
          handler_calls (snd (handle_message run s (JObj m)))
            = map (\<lambda>h. (h, ?p)) (registered s ev)
          \<and> (handle_message run s (JObj m) = (Inr (), []) \<longleftrightarrow> registered s ev = []))
     \<and> (hashable ?e \<and> registered s (fmt ?e) = [] \<longrightarrow> handle_message run s (JObj m) = (Inr (), []))"
    by (rule conjI [OF 1 conjI [OF 2 conjI [OF 3 4]]])
qed

text \<open>
  The theorem on a \<open>typing_start\<close> frame for \<open>channel:zz\<close>: a client in channel \<open>c1\<close>
  with no global handler drops it; the same client with two global handlers for
  \<open>typing_start\<close> invokes both, in order, and no callback.
\<close>

theorem unmatched_topic_handling_witness:
  "\<not> topic_joined in_c1 (JStr ''channel:zz'')
   \<and> hashable (JStr ''typing_start'')
   \<and> registered in_c1 ''typing_start'' = []
   \<and> handle_message failing in_c1 typing_elsewhere = (Inr (), [])
   \<and> \<not> topic_joined with_handlers (JStr ''channel:zz'')
   \<and> registered with_handlers ''typing_start'' = [7, 8]
   \<and> callback_calls (snd (handle_message failing with_handlers typing_elsewhere)) = []
   \<and> fst (handle_message failing with_handlers typing_elsewhere) = Inr ()
   \<and> handler_calls (snd (handle_message failing with_handlers typing_elsewhere))
       = [(7, JObj [(''user_name'', JStr ''ann'')]), (8, JObj [(''user_name'', JStr ''ann'')])]
   \<and> handle_message failing with_handlers typing_elsewhere \<noteq> (Inr (), [])"
proof -
  let ?m = "[(''topic'', JStr ''channel:zz''), (''event'', JStr ''typing_start''),
             (''payload'', JObj [(''user_name'', JStr ''ann'')])]"
  have t: "dict_get ?m ''topic'' (JStr []) = JStr ''channel:zz''"
    and e: "dict_get ?m ''event'' (JStr []) = JStr ''typing_start''"
    and p: "dict_get ?m ''payload'' (JObj []) = JObj [(''user_name'', JStr ''ann'')]"
    by (simp_all add: dict_get_def)
  have n: "\<not> topic_joined in_c1 (JStr ''channel:zz'')"
    by (simp add: topic_joined_def in_c1_def)
  have r: "registered in_c1 ''typing_start'' = []"
    by (simp add: registered_def in_c1_def)
  have n': "\<not> topic_joined with_handlers (JStr ''channel:zz'')"
    by (simp add: topic_joined_def with_handlers_def in_c1_def on_def)
  have r': "registered with_handlers ''typing_start'' = [7, 8]"
    by (simp add: registered_def with_handlers_def in_c1_def on_def)
  from t e n r unmatched_topic_handling [of in_c1 ?m failing]
  have 1: "handle_message failing in_c1 (JObj ?m) = (Inr (), [])"
    by simp
  from t e p n' r' unmatched_topic_handling [of with_handlers ?m failing]
  have 2: "callback_calls (snd (handle_message failing with_handlers (JObj ?m))) = []
    \<and> fst (handle_message failing with_handlers (JObj ?m)) = Inr ()
    \<and> handler_calls (snd (handle_message failing with_handlers (JObj ?m)))
       = [(7, JObj [(''user_name'', JStr ''ann'')]), (8, JObj [(''user_name'', JStr ''ann'')])]
    \<and> handle_message failing with_handlers (JObj ?m) \<noteq> (Inr (), [])"
    by simp
  from n r n' r' 1 2 show ?thesis by (simp add: typing_elsewhere_def)
qed

text \<open>
  Claim C2 as it is written fails: a frame whose topic matches no joined channel is
  still dispatched to the global handlers registered for its event name, here two of
  them; and a frame whose event field is a JSON array makes the handler raise
  \<open>TypeError\<close>, since the event is looked up in a dictionary.
\<close>

theorem unmatched_topic_counterexample:
  "\<not> topic_joined with_handlers (JStr ''channel:zz'')
   \<and> handle_message quiet with_handlers typing_elsewhere
       = (Inr (), [Call_handler 7 (JObj [(''user_name'', JStr ''ann'')]),
                   Call_handler 8 (JObj [(''user_name'', JStr ''ann'')])])
   \<and> fst (handle_message quiet with_handlers list_event_elsewhere)
       = Inl (Exn TypeError (''unhashable type: '' @ [CHR 0x27] @ ''list'' @ [CHR 0x27]))"
  by (simp add: topic_joined_def with_handlers_def in_c1_def on_def handle_message_def
      typing_elsewhere_def list_event_elsewhere_def dict_get_def dispatch_channel_def
      dispatch_global_def quiet_def Let_def)

text \<open>
  Claim C7. \<open>on\<close> appends the handler to the list registered for the event name, so
  an event name can have several handlers, kept in registration order. For every
  inbound frame that carries the event name, whatever its topic, the message handler
  returns without raising and the global handlers it invokes are exactly the
  registered ones, each once, in registration order, each with the frame's payload.
\<close>

theorem global_handlers_in_order:
  "registered (on s ev h) ev = registered s ev @ [h]
   \<and> (dict_get m ''event'' (JStr []) = JStr ev \<longrightarrow>
        fst (handle_message run s (JObj m)) = Inr ()
        \<and> handler_calls (snd (handle_message run s (JObj m)))
            = map (\<lambda>h. (h, dict_get m ''payload'' (JObj []))) (registered s ev))"
  by (auto simp: registered_on handle_message_str handler_calls_run_handlers
      dispatch_channel_handler_calls)

text \<open>
  The theorem at two handlers registered for \<open>typing_start\<close>, both of which raise
  when invoked: a matching frame invokes handler 7, then handler 8.
\<close>

theorem global_handlers_in_order_witness:
  "registered with_handlers ''typing_start'' = [7, 8]
   \<and> dict_get [(''topic'', JStr ''channel:zz''), (''event'', JStr ''typing_start''),
                (''payload'', JObj [(''user_name'', JStr ''ann'')])] ''event'' (JStr [])
       = JStr ''typing_start''
   \<and> fst (handle_message failing with_handlers typing_elsewhere) = Inr ()
   \<and> handler_calls (snd (handle_message failing with_handlers typing_elsewhere))
       = [(7, JObj [(''user_name'', JStr ''ann'')]), (8, JObj [(''user_name'', JStr ''ann'')])]"
proof -
  let ?m = "[(''topic'', JStr ''channel:zz''), (''event'', JStr ''typing_start''),
             (''payload'', JObj [(''user_name'', JStr ''ann'')])]"
  have e: "dict_get ?m ''event'' (JStr []) = JStr ''typing_start''"
    by (simp add: dict_get_def)
  have p: "dict_get ?m ''payload'' (JObj []) = JObj [(''user_name'', JStr ''ann'')]"
    by (simp add: dict_get_def)
  have r0: "registered in_c1 ''typing_start'' = []"
    by (simp add: registered_def in_c1_def)
  from global_handlers_in_order [of in_c1 "''typing_start''" 7]
    global_handlers_in_order [of "on in_c1 ''typing_start'' 7" "''typing_start''" 8]
  have r: "registered with_handlers ''typing_start'' = [7, 8]"
    by (simp add: with_handlers_def r0)
  from e p r global_handlers_in_order [of with_handlers "''typing_start''" 0 ?m failing]
  show ?thesis by (simp add: typing_elsewhere_def)
qed

text \<open>
  Claim C9. For every inbound frame whose event name is a string and whose topic
  matches no joined channel, the global handlers registered for the event name are
  invoked, in order, with the payload, and no per-channel callback is invoked.
\<close>

theorem global_handlers_without_channel:
  "\<not> topic_joined s (dict_get m ''topic'' (JStr [])) \<and> dict_get m ''event'' (JStr []) = JStr ev
   \<longrightarrow> fst (handle_message run s (JObj m)) = Inr ()
     \<and> handler_calls (snd (handle_message run s (JObj m)))
         = map (\<lambda>h. (h, dict_get m ''payload'' (JObj []))) (registered s ev)
     \<and> callback_calls (snd (handle_message run s (JObj m))) = []"
  by (auto simp: handle_message_str topic_joined_find dispatch_channel_def
      handler_calls_run_handlers callback_calls_run_handlers)

text \<open>The theorem at the same two handlers and a frame for a channel that is not joined.\<close>

theorem global_handlers_without_channel_witness:
  "\<not> topic_joined with_handlers (JStr ''channel:zz'')
   \<and> fst (handle_message failing with_handlers typing_elsewhere) = Inr ()
   \<and> handler_calls (snd (handle_message failing with_handlers typing_elsewhere))
       = [(7, JObj [(''user_name'', JStr ''ann'')]), (8, JObj [(''user_name'', JStr ''ann'')])]
   \<and> callback_calls (snd (handle_message failing with_handlers typing_elsewhere)) = []"
proof -
  let ?m = "[(''topic'', JStr ''channel:zz''), (''event'', JStr ''typing_start''),
             (''payload'', JObj [(''user_name'', JStr ''ann'')])]"
  have t: "dict_get ?m ''topic'' (JStr []) = JStr ''channel:zz''"
    and e: "dict_get ?m ''event'' (JStr []) = JStr ''typing_start''"
    and p: "dict_get ?m ''payload'' (JObj []) = JObj [(''user_name'', JStr ''ann'')]"
    by (simp_all add: dict_get_def)
  have n: "\<not> topic_joined with_handlers (JStr ''channel:zz'')"
    by (simp add: topic_joined_def with_handlers_def in_c1_def on_def)
  have r: "registered with_handlers ''typing_start'' = [7, 8]"
    by (simp add: registered_def with_handlers_def in_c1_def on_def)
  from t e p n r global_handlers_without_channel [of with_handlers ?m "''typing_start''" failing]
  show ?thesis by (simp add: typing_elsewhere_def)
qed

subsection \<open>The receive loop\<close>






subsection \<open>Sequences of join and leave\<close>

text \<open>
  Claim C6, as the code has it. Take a connected client whose channel dictionary has
  each key once, as a Python dictionary does, and any sequence of \<open>join_channel\<close> and
  \<open>leave_channel\<close> calls. The keys of the dictionary afterwards are exactly the
  channels joined and not subsequently left, a call counting when the transport
  accepted its frame: a join or a leave whose send raises leaves the dictionary as
  it was. The size of the dictionary is the number of those channels, so joining a
  channel again does not grow it. When the transport accepts every frame, they are
  the channels joined and not subsequently left by the calls as made. Afterwards,
  every channel-scoped sender called for a channel that is not among them raises,
  leaves the state as it is and hands nothing to the transport.
\<close>

theorem subscription_bookkeeping:
  "distinct (map fst (channels s)) \<and> active s \<longrightarrow>
     fst ` set (channels (run_calls s steps)) = tracked (fst ` set (channels s)) steps
     \<and> length (channels (run_calls s steps)) = card (tracked (fst ` set (channels s)) steps)
     \<and> (all_accepted steps \<longrightarrow>
          tracked (fst ` set (channels s)) steps
            = requested (fst ` set (channels s)) (calls_of steps))
     \<and> (\<forall>cid c. cid \<notin> tracked (fst ` set (channels s)) steps \<longrightarrow>
          (\<exists>e. call_sender ws_send t0 t (run_calls s steps) cid c
                 = (Inl e, run_calls s steps, [])))"
proof
  assume da: "distinct (map fst (channels s)) \<and> active s"
  let ?s' = "run_calls s steps"
  let ?S = "tracked (fst ` set (channels s)) steps"
  from da run_calls_tracked [of s steps]
  have k: "fst ` set (channels ?s') = ?S" and d': "distinct (map fst (channels ?s'))"
    by simp_all
  have "length (channels ?s') = length (map fst (channels ?s'))" by simp
  also have "\<dots> = card (set (map fst (channels ?s')))"
    using d' by (simp only: distinct_card)
  also have "\<dots> = card ?S" using k by simp
  finally have l: "length (channels ?s') = card ?S" .
  have r: "all_accepted steps \<longrightarrow>
          ?S = requested (fst ` set (channels s)) (calls_of steps)"
    by (simp add: tracked_requested)
  have n: "\<forall>cid c. cid \<notin> ?S \<longrightarrow>
          (\<exists>e. call_sender ws_send t0 t ?s' cid c = (Inl e, ?s', []))"
  proof (intro allI impI)
    fix cid c
    assume "cid \<notin> ?S"
    with k have "\<not> joined ?s' cid" by (simp add: joined_iff)
    with call_sender_guards [of ?s' ws_send t0 t cid c]
    show "\<exists>e. call_sender ws_send t0 t ?s' cid c = (Inl e, ?s', [])"
      by (cases "active ?s'") auto
  qed
  show "fst ` set (channels ?s') = ?S \<and> length (channels ?s') = card ?S
     \<and> (all_accepted steps \<longrightarrow>
          ?S = requested (fst ` set (channels s)) (calls_of steps))
     \<and> (\<forall>cid c. cid \<notin> ?S \<longrightarrow>
          (\<exists>e. call_sender ws_send t0 t ?s' cid c = (Inl e, ?s', [])))"
    by (rule conjI [OF k conjI [OF l conjI [OF r n]]])
qed

text \<open>
  The theorem on the client in channel \<open>c1\<close>. Joining \<open>c2\<close>, joining \<open>c1\<close> again, a
  \<open>leave\<close> of \<open>c2\<close> on which the transport raises, and leaving \<open>c1\<close>, leave exactly
  \<open>c2\<close>; so do joining \<open>c2\<close>, joining \<open>c1\<close> again and leaving \<open>c1\<close> over a transport that
  accepts every frame; and a sender for \<open>c1\<close> then raises.
\<close>

theorem subscription_bookkeeping_witness:
  "distinct (map fst (channels in_c1)) \<and> active in_c1 \<and> all_accepted steps_ok
   \<and> fst ` set (channels (run_calls in_c1 steps_mixed)) = {''c2''}
   \<and> length (channels (run_calls in_c1 steps_mixed)) = 1
   \<and> fst ` set (channels (run_calls in_c1 steps_ok)) = {''c2''}
   \<and> length (channels (run_calls in_c1 steps_ok)) = 1
   \<and> requested (fst ` set (channels in_c1)) (calls_of steps_ok) = {''c2''}
   \<and> (\<exists>e. call_sender send_ok 0 0 (run_calls in_c1 steps_mixed) ''c1'' Start_typing
            = (Inl e, run_calls in_c1 steps_mixed, []))"
proof -
  have d: "distinct (map fst (channels in_c1))" and k: "fst ` set (channels in_c1) = {''c1''}"
    and a: "active in_c1"
    by (simp_all add: in_c1_def active_def)
  have w: "all_accepted steps_ok"
    by (simp add: steps_ok_def all_accepted_def)
  have m: "tracked {''c1''} steps_mixed = {''c2''}"
    by (auto simp: steps_mixed_def)
  have o: "tracked {''c1''} steps_ok = {''c2''}"
    by (auto simp: steps_ok_def)
  from d a subscription_bookkeeping [of in_c1 steps_mixed send_ok 0 0]
  have m1: "fst ` set (channels (run_calls in_c1 steps_mixed)) = {''c2''}"
    and m2: "length (channels (run_calls in_c1 steps_mixed)) = 1"
    and m3: "\<forall>cid c. cid \<notin> {''c2''} \<longrightarrow>
          (\<exists>e. call_sender send_ok 0 0 (run_calls in_c1 steps_mixed) cid c
                 = (Inl e, run_calls in_c1 steps_mixed, []))"
    by (simp_all add: k m del: run_calls.simps call_sender.simps)
  from m3 have m4: "\<exists>e. call_sender send_ok 0 0 (run_calls in_c1 steps_mixed) ''c1'' Start_typing
            = (Inl e, run_calls in_c1 steps_mixed, [])"
    by (simp del: run_calls.simps call_sender.simps)
  from d a w subscription_bookkeeping [of in_c1 steps_ok send_ok 0 0]
  have o1: "fst ` set (channels (run_calls in_c1 steps_ok)) = {''c2''}"
    and o2: "length (channels (run_calls in_c1 steps_ok)) = 1"
    and o3: "requested {''c1''} (calls_of steps_ok) = {''c2''}"
    by (simp_all add: k o del: run_calls.simps call_sender.simps)
  from d a w m1 m2 m4 o1 o2 o3 k show ?thesis
    by (simp del: run_calls.simps call_sender.simps)
qed

text \<open>
  Claim C6 as it is written fails: on the connected client in channel \<open>c1\<close>, joining
  \<open>c2\<close> and then leaving it over a transport that raises on the leave frame leaves
  two channels in the dictionary, while one channel has been joined and not
  subsequently left.
\<close>

theorem failed_leave_counterexample:
  "active in_c1
   \<and> length (channels (run_calls in_c1 steps_failed_leave)) = 2
   \<and> card (requested (fst ` set (channels in_c1)) (calls_of steps_failed_leave)) = 1"
  by (simp add: active_def in_c1_def steps_failed_leave_def calls_of_def join_channel_def
      leave_channel_def state_of_def Let_def)

end
